theory Spec2Isabelle
  imports Complex_Main
begin

section \<open>Pedal cruise control (PCC\_module.py): data model\<close>

text \<open>
  The module computes with Python floats and ints. Floats are modelled as \<open>real\<close>
  (no rounding, no NaN, no infinity), ints as \<open>int\<close>. A Python exception is a value
  of type \<open>error\<close>; a function that can raise returns \<open>error + 'a\<close>.
  Names follow the source; a leading underscore is dropped
  (\<open>_decel_limit\<close> is \<open>decel_limit\<close>), and a parameter whose name is also an
  attribute of the car state gets the suffix \<open>_ms\<close> or a prime.
\<close>

datatype error = ZeroDivisionError | AttributeError

subsection \<open>Module constants\<close>

definition DT :: real where [simp]: "DT = 0.05"
definition DT_MPC :: real where [simp]: "DT_MPC = DT"
definition RESET_PID_ON_DISENGAGE :: bool where [simp]: "RESET_PID_ON_DISENGAGE = False"
definition MAX_RADAR_DISTANCE :: real where [simp]: "MAX_RADAR_DISTANCE = 120.0"
definition MAX_PEDAL_VALUE :: real where [simp]: "MAX_PEDAL_VALUE = 100.0"
definition PEDAL_HYST_GAP :: real where [simp]: "PEDAL_HYST_GAP = 1.0"
definition PEDAL_MAX_UP :: real where [simp]: "PEDAL_MAX_UP = MAX_PEDAL_VALUE * DT / 2"
definition PEDAL_MAX_DOWN :: real where [simp]: "PEDAL_MAX_DOWN = MAX_PEDAL_VALUE * DT / 0.4"
definition MIN_SAFE_DIST_M :: real where [simp]: "MIN_SAFE_DIST_M = 6.0"
definition TORQUE_LEVEL_ACC :: real where [simp]: "TORQUE_LEVEL_ACC = 0.0"
definition TORQUE_LEVEL_DECEL :: real where [simp]: "TORQUE_LEVEL_DECEL = - 30.0"
definition MIN_PCC_V_KPH :: real where [simp]: "MIN_PCC_V_KPH = 0.0"
definition MAX_PCC_V_KPH :: real where [simp]: "MAX_PCC_V_KPH = 270.0"
definition ANGLE_STOP_ACCEL :: real where [simp]: "ANGLE_STOP_ACCEL = 10.0"
definition MIN_CAN_SPEED :: real where [simp]: "MIN_CAN_SPEED = 0.3"
definition STALK_DOUBLE_PULL_MS :: int where [simp]: "STALK_DOUBLE_PULL_MS = 750"

text \<open>The states of \<open>PCCState\<close>, as the integer codes the class gives them.\<close>

definition PCCState_OFF :: int where [simp]: "PCCState_OFF = 0"
definition PCCState_STANDBY :: int where [simp]: "PCCState_STANDBY = 1"
definition PCCState_ENABLED :: int where [simp]: "PCCState_ENABLED = 2"
definition PCCState_NOT_READY :: int where [simp]: "PCCState_NOT_READY = 9"

subsection \<open>Imported names that are not part of the module\<close>

text \<open>
  Modelled from the spec: the unit conversions \<open>selfdrive.config.Conversions\<close> (the
  source imports them as \<open>CV\<close>; their file is not among the sources). The spec speaks
  of m/s, kph and mph; the factors are those of the units.
\<close>

definition MS_TO_KPH :: real where [simp]: "MS_TO_KPH = 3.6"
definition KPH_TO_MS :: real where [simp]: "KPH_TO_MS = 1 / MS_TO_KPH"
definition MPH_TO_KPH :: real where [simp]: "MPH_TO_KPH = 1.609344"
definition MPH_TO_MS :: real where [simp]: "MPH_TO_MS = MPH_TO_KPH * KPH_TO_MS"

text \<open>
  Modelled from the spec: \<open>clip\<close> of \<open>common.numpy_fast\<close> (not among the sources),
  the spec's "clamp" of a value to a lower and an upper bound.
\<close>

definition clip :: "real \<Rightarrow> real \<Rightarrow> real \<Rightarrow> real" where
  "clip x lo hi = max lo (min hi x)"

text \<open>
  Modelled from the spec: \<open>interp\<close> of \<open>common.numpy_fast\<close> (not among the sources),
  the spec's curve interpolator: piecewise-linear between the breakpoints, the nearest
  endpoint value below the first and above the last key, a constant for a one-entry
  table. A table is the list of (key, value) pairs of the source's \<open>OrderedDict\<close>, in
  the order written; no table of the module is empty.
\<close>

fun interp_from :: "real \<Rightarrow> real \<Rightarrow> real \<Rightarrow> (real \<times> real) list \<Rightarrow> real" where
  "interp_from x x0 y0 [] = y0"
| "interp_from x x0 y0 ((x1, y1) # rest) =
     (if x \<le> x1 then (x - x0) * (y1 - y0) / (x1 - x0) + y0
      else interp_from x x1 y1 rest)"

definition interp_map :: "real \<Rightarrow> (real \<times> real) list \<Rightarrow> real" where
  "interp_map val val_map =
     (case val_map of
        [] \<Rightarrow> 0
      | (x0, y0) # rest \<Rightarrow> if val \<le> x0 then y0 else interp_from val x0 y0 rest)"

text \<open>
  Modelled from the spec: the codes of the cruise stalk, \<open>CruiseButtons\<close> of
  \<open>selfdrive.car.tesla.values\<close> (not among the sources): idle, main, cancel, resume,
  resume-big, decel, decel-big.
\<close>

datatype CruiseButtons = IDLE | MAIN | CANCEL | RES_ACCEL | RES_ACCEL_2ND | DECEL_SET | DECEL_2ND

text \<open>Python's \<open>int\<close> of a float truncates towards zero.\<close>

definition py_int :: "real \<Rightarrow> int" where
  "py_int x = (if 0 \<le> x then \<lfloor>x\<rfloor> else \<lceil>x\<rceil>)"

subsection \<open>The lead vehicle and the car state\<close>

record lead =
  dRel :: real
  vRel :: real
  aRel :: real
  vLeadK :: real
  aLeadK :: real
  status :: bool

text \<open>
  The attributes of \<open>CS\<close> the module reads. \<open>button_status\<close> and \<open>button_label2\<close>
  are what \<open>CS.cstm_btns\<close> holds for the button named \<open>pedal\<close>; \<open>startAccel\<close>
  is \<open>CS.CP.startAccel\<close>.
\<close>

record CarState =
  v_ego :: real
  a_ego :: real
  angle_steers :: real
  torqueLevel :: real
  apFollowTimeInS :: real
  pedal_interceptor_value :: real
  startAccel :: real
  brake_pressed :: bool
  imperial_speed_units :: bool
  useTeslaRadar :: bool
  useWithoutHarness :: bool
  forcePedalOverCC :: bool
  turn_signal_blinking :: bool
  cruise_buttons :: CruiseButtons
  pcm_acc_status :: int
  pedal_interceptor_state :: int
  cs_pedal_idx :: int
  cs_prev_pedal_idx :: int
  teslaModel :: string
  button_status :: int
  button_label2 :: string

section \<open>Envelope helpers\<close>

definition visual_radar_adjusted_dist_m :: "real \<Rightarrow> CarState \<Rightarrow> real" where
  "visual_radar_adjusted_dist_m m CS = interp_map m [(7, 0), (1000, 1000)]"

definition safe_distance_m :: "real \<Rightarrow> CarState \<Rightarrow> real" where
  "safe_distance_m v_ego_ms CS = max (apFollowTimeInS CS * (v_ego_ms + 1)) MIN_SAFE_DIST_M"

definition is_present :: "lead option \<Rightarrow> bool" where
  "is_present ld = (case ld of None \<Rightarrow> False | Some l \<Rightarrow> dRel l > 0)"

text \<open>
  \<open>_sec_til_collision\<close>. The float division raises \<open>ZeroDivisionError\<close> when
  \<open>vRel + min(0, aRel) * apFollowTimeInS\<close> is zero.
\<close>

definition sec_til_collision :: "lead option \<Rightarrow> CarState \<Rightarrow> error + real" where
  "sec_til_collision ld CS =
     (if is_present ld \<and> vRel (the ld) < 0 then
        (let l = the ld;
             closing = \<bar>vRel l + min 0 (aRel l) * apFollowTimeInS CS\<bar>
         in if useTeslaRadar CS then
              (if closing = 0 then Inl ZeroDivisionError
               else Inr (min 0.1 (- 4 + dRel l / closing)))
            else
              (if closing = 0 then Inl ZeroDivisionError
               else Inr (visual_radar_adjusted_dist_m (dRel l) CS / closing)))
      else Inr 60.0)"

text \<open>
  \<open>_decel_limit\<close>. The source calls \<open>_sec_til_collision\<close> a second time in the
  fallback product; the call has no effect and returns what the first returned,
  \<open>ttc\<close> here.
\<close>

definition decel_limit :: "real \<Rightarrow> real \<Rightarrow> lead option \<Rightarrow> CarState \<Rightarrow> real \<Rightarrow> error + real" where
  "decel_limit accel_min v_ego_ms ld CS max_speed_kph =
     (let safe_dist_m = safe_distance_m v_ego_ms CS;
          max_speed_mult =
            (if v_ego_ms * MS_TO_KPH > max_speed_kph then
               (let overshot = v_ego_ms * MS_TO_KPH - max_speed_kph
                in if overshot \<ge> 5 then 2.0 else if overshot \<ge> 2.0 then 1.5 else 1.0)
             else 1.0)
      in if is_present ld then
           (case sec_til_collision ld CS of
              Inl e \<Rightarrow> Inl e
            | Inr ttc \<Rightarrow>
               (let time_to_brake = max 0.1 ttc; l = the ld
                in if 0 < dRel l \<and> dRel l < MIN_SAFE_DIST_M then Inr (- 100.0)
                   else if vRel l \<ge> 0.1 * v_ego_ms \<and> aRel l < 0.5
                           \<and> dRel l \<le> 1.1 * safe_dist_m then
                     Inr (- 2 + aRel l)
                   else if vRel l \<le> 0.1 * v_ego_ms \<and> aLeadK l < 0.5
                           \<and> dRel l \<le> 1.1 * safe_dist_m then
                     (let accel_to_compensate = min (3 * vRel l / time_to_brake) (- 0.7)
                      in Inr (- 2 + aRel l + accel_to_compensate))
                   else if vRel l < - 0.1 * v_ego_ms \<and> dRel l \<le> 1.1 * safe_dist_m then
                     Inr (- 3 + 2 * vRel l / time_to_brake)
                   else
                     Inr (accel_min * max_speed_mult
                          * interp_map ttc [(0, 10.0), (4, 1.0), (7, 0.5), (10, 0.3)]
                          * interp_map v_ego_ms [(0, 10.0), (4, 5.0), (7, 2.50), (10, 1.0)])))
         else Inr (accel_min * 0.5 * max_speed_mult))"

text \<open>
  \<open>_brake_pedal_min\<close>. The division by \<open>v_ego\<close> is the one place where the function
  can raise.
\<close>

definition brake_pedal_min :: "real \<Rightarrow> real \<Rightarrow> lead option \<Rightarrow> CarState \<Rightarrow> real \<Rightarrow> error + real" where
  "brake_pedal_min v_ego_ms v_target ld CS max_speed_kph =
     (if v_ego_ms \<le> 7 * MPH_TO_MS then Inr (- 1)
      else if v_ego_ms * MS_TO_KPH > max_speed_kph then Inr (- 0.8)
      else if v_ego_ms = 0 then Inl ZeroDivisionError
      else
        (let speed_delta_perc = 100 * (v_ego_ms - v_target) / v_ego_ms;
             brake_mult1 = interp_map speed_delta_perc
               [(0.0, 0.3), (1.5, 0.5), (5.0, 0.8), (7.0, 1.0), (50.0, 1.0)];
             brake_mult2 =
               (if is_present ld then
                  (let safe_dist_m = safe_distance_m (v_ego CS) CS
                   in interp_map (dRel (the ld))
                        [(0.8 * safe_dist_m, 1.0), (1.0 * safe_dist_m, 0.6), (3.0 * safe_dist_m, 0.4)])
                else 0.0);
             brake_mult = max brake_mult1 brake_mult2
         in Inr (- brake_mult)))"

section \<open>The controller\<close>

subsection \<open>Collaborators outside the module\<close>

text \<open>
  The module calls code that is not among the sources: the cruise-state test
  \<open>CruiseState.is_off\<close>, the longitudinal controller \<open>LongControl\<close> (type \<open>'loc\<close>),
  the fleet-speed averager \<open>FleetSpeed\<close> (type \<open>'fs\<close>), the planner's
  \<open>calc_cruise_accel_limits\<close> and \<open>limit_accel_in_turns\<close>, \<open>speed_smoother\<close> and the
  car state's \<open>config_ui_buttons\<close>. Each is a parameter; a function that changes its
  object returns the changed object. \<open>load_pid\<close> stands for the effect of the module's
  \<open>load_pid\<close> on the controller's gains, which depends on a file.
\<close>

datatype LongCtrlState = LongCtrlState_off | LongCtrlState_pid | LongCtrlState_stopping
  | LongCtrlState_starting

record ('loc, 'fs) externals =
  CruiseState_is_off :: "int \<Rightarrow> bool"
  LongControl_new :: "CarState \<Rightarrow> 'loc"
  load_pid :: "'loc \<Rightarrow> 'loc"
  LongControl_reset :: "'loc \<Rightarrow> real \<Rightarrow> 'loc"
  LongControl_update :: "'loc \<Rightarrow> bool \<Rightarrow> real \<Rightarrow> real \<Rightarrow> real \<Rightarrow> real \<Rightarrow> CarState \<Rightarrow> (real \<times> real) \<times> 'loc"
  long_control_state :: "'loc \<Rightarrow> LongCtrlState"
  reset_averager :: "'fs \<Rightarrow> 'fs"
  fleet_adjust :: "'fs \<Rightarrow> CarState \<Rightarrow> real \<Rightarrow> int \<Rightarrow> real \<times> 'fs"
  calc_cruise_accel_limits :: "real \<Rightarrow> bool \<Rightarrow> real \<times> real"
  limit_accel_in_turns :: "real \<Rightarrow> real \<Rightarrow> real \<times> real \<Rightarrow> CarState \<Rightarrow> real \<times> real"
  speed_smoother :: "real \<Rightarrow> real \<Rightarrow> real \<Rightarrow> real \<Rightarrow> real \<Rightarrow> real \<Rightarrow> real \<Rightarrow> real \<Rightarrow> real \<times> real"
  config_ui_buttons :: "CarState \<Rightarrow> bool \<Rightarrow> bool \<Rightarrow> CarState"

subsection \<open>State, inputs and outputs\<close>

text \<open>
  The attributes of \<open>PCCController\<close> that the module reads or writes after
  \<open>__init__\<close>. (\<open>human_cruise_action_time\<close>, \<open>automated_cruise_action_time\<close>,
  \<open>last_angle\<close>, \<open>last_update_time\<close> and \<open>a_pid\<close> are set there and never used.)
\<close>

record ('loc, 'fs) PCC =
  pcc_available :: bool
  prev_pcc_available :: bool
  pedal_timeout_frame :: int
  accelerator_pedal_pressed :: bool
  prev_accelerator_pedal_pressed :: bool
  lead_1 :: "lead option"
  enable_pedal_cruise :: bool
  stalk_pull_time_ms :: int
  prev_stalk_pull_time_ms :: int
  prev_pcm_acc_status :: int
  prev_cruise_buttons :: CruiseButtons
  pedal_speed_kph :: real
  speed_limit_kph :: real
  prev_speed_limit_kph :: real
  pedal_idx :: int
  pedal_steady :: real
  prev_tesla_accel :: real
  prev_tesla_pedal :: real
  torqueLevel_last :: real
  prev_v_ego :: real
  PedalForZeroTorque :: real
  lastTorqueForPedalForZeroTorque :: real
  v_pid :: real
  last_output_gb :: real
  last_speed_kph :: "real option"
  v_acc_start :: real
  a_acc_start :: real
  v_acc :: real
  v_acc_sol :: real
  v_acc_future :: real
  a_acc :: real
  a_acc_sol :: real
  v_cruise :: real
  a_cruise :: real
  vTargetFuture :: real
  LoC :: "'loc option"
  lead_last_seen_time_ms :: int
  continuous_lead_sightings :: int
  fleet_speed :: 'fs

record actuators =
  gas :: real
  brake :: real

record map_data =
  curvatureValid :: bool
  curvature :: real
  distToTurn :: real

text \<open>
  What a cycle sends out besides its return value: the pedal command of
  \<open>teslacan.create_pedal_command_msg\<close> with its four arguments, the alerts of
  \<open>CS.UE.custom_alert_message\<close> (the kind and the text; the fault alert's text leaves
  out the state number, and the display times are dropped) and the call of \<open>save_pid\<close>.
\<close>

datatype can_msg = PedalCommand real real int int

datatype ui_event = Alert int string | SavePid

text \<open>
  The transitions of the engagement state machine, numbered 2 to 7 in the spec. The
  model records which of them a cycle runs.
\<close>

datatype transition = BrakeDisable | MainStalkPress | CancelPress | SpeedAdjust
  | CruiseTakeoverDisable | SinglePullDisable

record ('loc, 'fs) stat_result =
  new_state :: "('loc, 'fs) PCC"
  new_CS :: CarState
  can_sends :: "can_msg list"
  ui_events :: "ui_event list"
  fired :: "transition list"

subsection \<open>The user interface modes\<close>

datatype Mode = OpMode | FollowMode

definition label :: "Mode \<Rightarrow> string" where
  "label m = (case m of OpMode \<Rightarrow> ''OP'' | FollowMode \<Rightarrow> ''FOLLOW'')"

definition from_label :: "string \<Rightarrow> Mode" where
  "from_label lbl =
     (if lbl = ''OP'' then OpMode else if lbl = ''FOLLOW'' then FollowMode else OpMode)"

definition from_buttons :: "CarState \<Rightarrow> Mode" where
  "from_buttons CS = from_label (button_label2 CS)"

definition is_selected :: "Mode \<Rightarrow> CarState \<Rightarrow> bool" where
  "is_selected mode CS = (label mode = label (from_buttons CS))"

subsection \<open>Small helpers\<close>

definition tesla_compute_gb :: "real \<Rightarrow> real \<Rightarrow> real" where
  "tesla_compute_gb accel speed = accel / 3.0"

definition reset :: "('loc, 'fs) externals \<Rightarrow> ('loc, 'fs) PCC \<Rightarrow> real \<Rightarrow> ('loc, 'fs) PCC" where
  "reset ext s v =
     (case LoC s of
        None \<Rightarrow> s
      | Some l \<Rightarrow> if RESET_PID_ON_DISENGAGE then s\<lparr>LoC := Some (LongControl_reset ext l v)\<rparr> else s)"

definition pedal_hysteresis :: "('loc, 'fs) PCC \<Rightarrow> real \<Rightarrow> bool \<Rightarrow> real \<times> ('loc, 'fs) PCC" where
  "pedal_hysteresis s pedal enabled =
     (let s' =
        (if \<not> enabled then s\<lparr>pedal_steady := 0.0\<rparr>
         else if pedal > pedal_steady s + PEDAL_HYST_GAP then
           s\<lparr>pedal_steady := pedal - PEDAL_HYST_GAP\<rparr>
         else if pedal < pedal_steady s - PEDAL_HYST_GAP then
           s\<lparr>pedal_steady := pedal + PEDAL_HYST_GAP\<rparr>
         else s)
      in (pedal_steady s', s'))"

definition update_pedal_state ::
  "('loc, 'fs) externals \<Rightarrow> ('loc, 'fs) PCC \<Rightarrow> CarState \<Rightarrow> int \<Rightarrow> ('loc, 'fs) PCC \<times> CarState" where
  "update_pedal_state ext s CS frame =
     (let s1 = (if cs_pedal_idx CS \<noteq> cs_prev_pedal_idx CS
                then s\<lparr>pedal_timeout_frame := frame + 50\<rparr> else s);
          s2 = s1\<lparr>prev_pcc_available := pcc_available s1\<rparr>;
          pedal_ready = (frame < pedal_timeout_frame s2 \<and> pedal_interceptor_state CS = 0);
          acc_disabled = (forcePedalOverCC CS \<or> CruiseState_is_off ext (pcm_acc_status CS));
          s3 = s2\<lparr>pcc_available := (pedal_ready \<and> acc_disabled)\<rparr>
      in if pcc_available s3 \<noteq> prev_pcc_available s3
         then (s3, config_ui_buttons ext CS (pcc_available s3) (pedal_ready \<and> \<not> acc_disabled))
         else (s3, CS))"

definition max_v_in_mapped_curve_ms :: "map_data \<Rightarrow> real \<Rightarrow> real option" where
  "max_v_in_mapped_curve_ms md pedal_set_speed_kph =
     (if curvatureValid md then
        (let pedal_set_speed_ms = pedal_set_speed_kph * KPH_TO_MS;
             a_y_max = 1.85;
             curv = \<bar>curvature md\<bar>;
             v_curvature_ms = sqrt (a_y_max / max 0.0001 curv);
             time_to_turn_s = max 0 (distToTurn md / max pedal_set_speed_ms 1.0)
         in Some (interp_map time_to_turn_s [(0, pedal_set_speed_ms), (8, v_curvature_ms)]))
      else None)"

definition max_safe_speed_kph :: "lead option \<Rightarrow> CarState \<Rightarrow> error + real" where
  "max_safe_speed_kph ld CS =
     (if is_present ld then
        (if apFollowTimeInS CS = 0 then Inl ZeroDivisionError
         else Inr ((v_ego CS + vRel (the ld)
                    + (dRel (the ld) - safe_distance_m (v_ego CS) CS) / apFollowTimeInS CS)
                   * MS_TO_KPH))
      else Inr MAX_PCC_V_KPH)"

definition min_safe_vrel_kph :: "lead \<Rightarrow> CarState \<Rightarrow> real \<Rightarrow> real" where
  "min_safe_vrel_kph l CS actual_speed_kph =
     (let m = dRel l
      in if vLeadK l * MS_TO_KPH > actual_speed_kph then - 100
         else interp_map m [(MIN_SAFE_DIST_M, 2), (100, - 25), (1000, - 50)])"

definition accel_limit_multiplier :: "CarState \<Rightarrow> lead option \<Rightarrow> real" where
  "accel_limit_multiplier CS ld =
     (let accel_by_speed =
            (if teslaModel CS \<in> {''SP'', ''SPD''}
             then [(0.0, 0.985), (10.0, 0.975), (20.0, 0.95), (30.0, 0.9)]
             else [(0.0, 0.95), (10.0, 0.95), (20.0, 0.925), (30.0, 0.875)]);
          accel_mult = interp_map (v_ego CS) accel_by_speed
      in if is_present ld then
           (let safe_dist_m = safe_distance_m (v_ego CS) CS;
                accel_multipliers =
                  [(0.6 * safe_dist_m, 0.15), (1.0 * safe_dist_m, 0.2), (3.0 * safe_dist_m, 0.4)];
                vrel_multipliers = [(0.0, 1.0), (10.0, 1.5)]
            in min (accel_mult * interp_map (vRel (the ld)) vrel_multipliers
                    * interp_map (dRel (the ld)) accel_multipliers) 1.0)
         else min (accel_mult * 0.4) 1.0)"

subsection \<open>The follow-speed planner\<close>

text \<open>
  \<open>calc_follow_speed_ms\<close> returns \<open>None\<close> when no lead was ever stored, and otherwise
  the target speed in m/s; it stores the target in \<open>last_speed_kph\<close>. The one call
  that can raise is \<open>_max_safe_speed_kph\<close> (a division by the follow time).
\<close>

definition calc_follow_speed_ms ::
  "('loc, 'fs) PCC \<Rightarrow> CarState \<Rightarrow> bool \<Rightarrow> error + (real option \<times> ('loc, 'fs) PCC)" where
  "calc_follow_speed_ms s CS alca_enabled =
     (case lead_1 s of
        None \<Rightarrow> Inr (None, s)
      | Some l \<Rightarrow>
         (let lead_dist_m =
                (if \<not> useTeslaRadar CS then visual_radar_adjusted_dist_m (dRel l) CS
                 else dRel l);
              v_rel = (if \<bar>vRel l\<bar> > 0.5 then vRel l else 0);
              a_rel = (if \<bar>aRel l\<bar> > 0.5 then aRel l else 0);
              rel_speed_kph = (v_rel + 0 * apFollowTimeInS CS * a_rel) * MS_TO_KPH;
              safe_dist_m = safe_distance_m (v_ego CS) CS;
              actual_speed_kph = v_ego CS * MS_TO_KPH;
              last = (case last_speed_kph s of None \<Rightarrow> actual_speed_kph | Some v \<Rightarrow> v);
              lead_absolute_speed_kph = actual_speed_kph + rel_speed_kph;
              rel_speed_kph' =
                (if enable_pedal_cruise s
                    \<and> \<not> (lead_dist_m = 0 \<or> lead_dist_m > MAX_RADAR_DISTANCE)
                    \<and> lead_dist_m > 0
                 then lead_absolute_speed_kph - actual_speed_kph else rel_speed_kph);
              planned =
                (if enable_pedal_cruise s then
                   (if lead_dist_m = 0 \<or> lead_dist_m > MAX_RADAR_DISTANCE then
                      Inr (pedal_speed_kph s)
                    else if lead_dist_m > 0 then
                      (if lead_dist_m < MIN_SAFE_DIST_M \<and> rel_speed_kph' \<ge> 3 then
                         Inr actual_speed_kph
                       else if lead_dist_m < MIN_SAFE_DIST_M then
                         Inr MIN_PCC_V_KPH
                       else if safe_dist_m + 2 > lead_dist_m \<and> lead_dist_m > MIN_SAFE_DIST_M then
                         (let min_vrel_kph = interp_map lead_dist_m
                                [(0.5 * safe_dist_m, 3.0), (0.8 * safe_dist_m, 2.0),
                                 (1.0 * safe_dist_m, 0.0)]
                          in Inr (lead_absolute_speed_kph - min_vrel_kph))
                       else
                         (let min_vrel_kph = interp_map lead_dist_m
                                [(0.5 * safe_dist_m, 3),
                                 (1.0 * safe_dist_m, - 1 - 0.025 * v_ego CS * MS_TO_KPH),
                                 (1.5 * safe_dist_m, - 5 - 0.05 * v_ego CS * MS_TO_KPH),
                                 (3.0 * safe_dist_m, - 10 - 0.1 * v_ego CS * MS_TO_KPH)];
                              max_vrel_kph = interp_map lead_dist_m
                                [(0.5 * safe_dist_m, 6), (1.0 * safe_dist_m, 2),
                                 (1.5 * safe_dist_m, - 3), (3 * safe_dist_m, - 7)];
                              min_kph = lead_absolute_speed_kph - max_vrel_kph;
                              max_kph = lead_absolute_speed_kph - min_vrel_kph;
                              n1 = (if lead_dist_m \<ge> 0.8 * safe_dist_m
                                       \<and> lead_absolute_speed_kph > actual_speed_kph
                                       \<and> aLeadK l \<ge> 0.0
                                    then lead_absolute_speed_kph else last);
                              n2 = clip n1 min_kph max_kph;
                              n3 = (if actual_speed_kph > n2
                                       \<and> (min_kph < actual_speed_kph \<and> actual_speed_kph < max_kph)
                                       \<and> lead_absolute_speed_kph > 30
                                    then actual_speed_kph else n2)
                          in case max_safe_speed_kph (lead_1 s) CS of
                               Inl e \<Rightarrow> Inl e
                             | Inr max_safe \<Rightarrow>
                                 Inr (min n3 (min max_safe
                                   (max (lead_absolute_speed_kph
                                         - min_safe_vrel_kph l CS actual_speed_kph) 2)))))
                    else Inr last)
                 else Inr last)
          in case planned of
               Inl e \<Rightarrow> Inl e
             | Inr new_speed_kph \<Rightarrow>
                (let n4 = clip new_speed_kph MIN_PCC_V_KPH MAX_PCC_V_KPH;
                     n5 = clip n4 MIN_PCC_V_KPH (pedal_speed_kph s);
                     n6 = (if turn_signal_blinking CS \<or> \<bar>angle_steers CS\<bar> > ANGLE_STOP_ACCEL
                              \<or> alca_enabled
                           then min n5 last else n5);
                     n7 = (if (MIN_SAFE_DIST_M > lead_dist_m \<and> lead_dist_m > 0)
                              \<and> rel_speed_kph' < 3.0
                           then MIN_PCC_V_KPH else n6)
                 in Inr (Some (n7 * KPH_TO_MS), s\<lparr>last_speed_kph := Some n7\<rparr>))))"

subsection \<open>The engagement state machine\<close>

text \<open>
  \<open>update_stat\<close> in the order of the source: the controller is created on first use,
  the pedal state is refreshed, a cycle without the pedal sends a reset command every
  50th frame and returns; otherwise the brake check, the chain over the stalk, the
  notification, the button status and the previous values. \<open>curr_time_ms\<close> is what
  \<open>_current_time_millis()\<close> returns in the cycle.
\<close>

definition init_LoC :: "('loc, 'fs) externals \<Rightarrow> ('loc, 'fs) PCC \<Rightarrow> CarState \<Rightarrow> ('loc, 'fs) PCC" where
  "init_LoC ext s CS =
     (case LoC s of
        Some l \<Rightarrow> s
      | None \<Rightarrow>
          (let l = LongControl_new ext CS
           in s\<lparr>LoC := Some (if \<not> RESET_PID_ON_DISENGAGE then load_pid ext l else l)\<rparr>))"

definition unavailable_cycle ::
  "('loc, 'fs) PCC \<Rightarrow> CarState \<Rightarrow> int \<Rightarrow> ('loc, 'fs) stat_result" where
  "unavailable_cycle s CS frame =
     (let timed_out = (frame \<ge> pedal_timeout_frame s)
      in if timed_out \<or> pedal_interceptor_state CS > 0 then
           (let alerts =
                  (if prev_pcc_available s
                   then [Alert 4 (if timed_out then ''Pedal Interceptor timed out''
                                  else ''Pedal Interceptor fault'')]
                   else [])
            in if frame mod 50 = 0 then
                 (let idx = pedal_idx s;
                      pedalcan = (if useWithoutHarness CS then 0 else 2)
                  in \<lparr>new_state = s\<lparr>pedal_idx := (pedal_idx s + 1) mod 16\<rparr>, new_CS = CS,
                      can_sends = [PedalCommand 0 0 idx pedalcan], ui_events = alerts,
                      fired = []\<rparr>)
               else \<lparr>new_state = s, new_CS = CS, can_sends = [], ui_events = alerts,
                     fired = []\<rparr>)
         else \<lparr>new_state = s, new_CS = CS, can_sends = [], ui_events = [], fired = []\<rparr>)"

definition disable_on_brake ::
  "('loc, 'fs) externals \<Rightarrow> ('loc, 'fs) PCC \<Rightarrow> CarState \<Rightarrow> ('loc, 'fs) PCC \<times> transition list" where
  "disable_on_brake ext s CS =
     (if brake_pressed CS \<and> enable_pedal_cruise s
      then (reset ext (s\<lparr>enable_pedal_cruise := False\<rparr>) 0.0, [BrakeDisable])
      else (s, []))"

definition process_stalk ::
  "('loc, 'fs) externals \<Rightarrow> ('loc, 'fs) PCC \<Rightarrow> CarState \<Rightarrow> int \<Rightarrow> ('loc, 'fs) PCC \<times> transition list" where
  "process_stalk ext s CS curr_time_ms =
     (let speed_uom_kph = (if imperial_speed_units CS then MPH_TO_KPH else 1.0)
      in if cruise_buttons CS = MAIN \<and> prev_cruise_buttons s \<noteq> MAIN then
           (let s1 = s\<lparr>prev_stalk_pull_time_ms := stalk_pull_time_ms s\<rparr>;
                s2 = s1\<lparr>stalk_pull_time_ms := curr_time_ms\<rparr>;
                double_pull =
                  (stalk_pull_time_ms s2 - prev_stalk_pull_time_ms s2 < STALK_DOUBLE_PULL_MS);
                ready = (button_status CS > PCCState_OFF
                           \<and> CruiseState_is_off ext (pcm_acc_status CS)
                         \<or> forcePedalOverCC CS)
            in if ready \<and> double_pull then
                 (let s3 = reset ext (s2\<lparr>enable_pedal_cruise := True\<rparr>) (v_ego CS);
                      current_speed_kph_uom_rounded =
                        real_of_int (py_int (v_ego CS * MS_TO_KPH / speed_uom_kph + 0.5))
                        * speed_uom_kph
                  in (s3\<lparr>pedal_speed_kph :=
                            max current_speed_kph_uom_rounded (speed_limit_kph s3)\<rparr>,
                      [MainStalkPress]))
               else (s2, [MainStalkPress]))
         else if cruise_buttons CS = CANCEL then
           (s\<lparr>enable_pedal_cruise := False, pedal_speed_kph := 0.0,
               stalk_pull_time_ms := 0, prev_stalk_pull_time_ms := - 1000\<rparr>,
            [CancelPress])
         else if enable_pedal_cruise s \<and> cruise_buttons CS \<noteq> prev_cruise_buttons s then
           (let actual_speed_kph_uom_rounded =
                  real_of_int (py_int (v_ego CS * MS_TO_KPH / speed_uom_kph + 0.5))
                  * speed_uom_kph;
                v = (if cruise_buttons CS = RES_ACCEL then
                       max (pedal_speed_kph s) actual_speed_kph_uom_rounded + speed_uom_kph
                     else if cruise_buttons CS = RES_ACCEL_2ND then
                       max (pedal_speed_kph s) actual_speed_kph_uom_rounded + 5 * speed_uom_kph
                     else if cruise_buttons CS = DECEL_SET then
                       pedal_speed_kph s - speed_uom_kph
                     else if cruise_buttons CS = DECEL_2ND then
                       pedal_speed_kph s - 5 * speed_uom_kph
                     else pedal_speed_kph s)
            in (s\<lparr>pedal_speed_kph := clip v MIN_PCC_V_KPH MAX_PCC_V_KPH\<rparr>, [SpeedAdjust]))
         else if enable_pedal_cruise s \<and> pcm_acc_status CS \<noteq> 0 \<and> \<not> forcePedalOverCC CS then
           (s\<lparr>enable_pedal_cruise := False\<rparr>, [CruiseTakeoverDisable])
         else if enable_pedal_cruise s
                 \<and> curr_time_ms - stalk_pull_time_ms s > STALK_DOUBLE_PULL_MS
                 \<and> stalk_pull_time_ms s - prev_stalk_pull_time_ms s > STALK_DOUBLE_PULL_MS then
           (s\<lparr>enable_pedal_cruise := False\<rparr>, [SinglePullDisable])
         else (s, []))"

definition notify_toggle ::
  "('loc, 'fs) externals \<Rightarrow> bool \<Rightarrow> ('loc, 'fs) PCC \<Rightarrow> CarState
     \<Rightarrow> ('loc, 'fs) PCC \<times> CarState \<times> ui_event list" where
  "notify_toggle ext prev_enable_pedal_cruise s CS =
     (if prev_enable_pedal_cruise \<and> \<not> enable_pedal_cruise s then
        (s\<lparr>fleet_speed := reset_averager ext (fleet_speed s)\<rparr>,
         CS\<lparr>button_status := PCCState_STANDBY\<rparr>,
         [Alert 3 ''PCC Disabled'', SavePid])
      else if enable_pedal_cruise s \<and> \<not> prev_enable_pedal_cruise then
        (s, CS\<lparr>button_status := PCCState_ENABLED\<rparr>, [Alert 2 ''PCC Enabled''])
      else (s, CS, []))"

definition update_ui_status :: "('loc, 'fs) externals \<Rightarrow> CarState \<Rightarrow> CarState" where
  "update_ui_status ext CS =
     (if button_status CS \<in> {PCCState_STANDBY, PCCState_NOT_READY} then
        (if CruiseState_is_off ext (pcm_acc_status CS) \<or> forcePedalOverCC CS
         then CS\<lparr>button_status := PCCState_STANDBY\<rparr>
         else CS\<lparr>button_status := PCCState_NOT_READY\<rparr>)
      else CS)"

definition update_stat ::
  "('loc, 'fs) externals \<Rightarrow> ('loc, 'fs) PCC \<Rightarrow> CarState \<Rightarrow> int \<Rightarrow> int \<Rightarrow> ('loc, 'fs) stat_result" where
  "update_stat ext s CS frame curr_time_ms =
     (case update_pedal_state ext (init_LoC ext s CS) CS frame of
        (s1, CS1) \<Rightarrow>
          if \<not> pcc_available s1 then unavailable_cycle s1 CS1 frame
          else
            (let prev_enable_pedal_cruise = enable_pedal_cruise s1
             in case disable_on_brake ext s1 CS1 of
                  (s2, f2) \<Rightarrow>
                    (case process_stalk ext s2 CS1 curr_time_ms of
                       (s3, f3) \<Rightarrow>
                         (case notify_toggle ext prev_enable_pedal_cruise s3 CS1 of
                            (s4, CS2, evs) \<Rightarrow>
                              \<lparr>new_state = s4\<lparr>prev_cruise_buttons := cruise_buttons CS2,
                                               prev_pcm_acc_status := pcm_acc_status CS2\<rparr>,
                               new_CS = update_ui_status ext CS2,
                               can_sends = [],
                               ui_events = evs,
                               fired = f2 @ f3\<rparr>))))"

subsection \<open>The pedal output\<close>

text \<open>
  \<open>update_pdl\<close> in four steps, in the order of the source. \<open>pdl_prepare\<close> is the part
  before the gate: the pedal zero, the speed limit and the rolling index.
  \<open>pdl_envelope\<close> takes in the radar message \<open>radSt\<close> (\<open>None\<close> when no message
  arrived; otherwise the message's \<open>leadOne\<close>) and computes the acceleration and jerk
  limits. \<open>pdl_request\<close> is the choice between the follow branch and the branch that
  takes the request from the actuators; it returns the state, the flag \<open>enabled\<close>
  (the follow branch rebinds it), the request and the brake multiplier.
  \<open>pdl_encode\<close> turns the request into the pedal value. A result is the new state
  with the returned triple (pedal value, enable bit, index); a cycle that raises
  returns the error alone.
\<close>

definition pdl_prepare ::
  "('loc, 'fs) externals \<Rightarrow> ('loc, 'fs) PCC \<Rightarrow> CarState \<Rightarrow> real \<Rightarrow> bool \<Rightarrow> real
     \<Rightarrow> ('loc, 'fs) PCC" where
  "pdl_prepare ext s CS speed_limit_ms set_speed_limit_active speed_limit_offset =
     (let s1 = s\<lparr>prev_speed_limit_kph := speed_limit_kph s\<rparr>;
          s2 = (if torqueLevel CS < TORQUE_LEVEL_ACC
                   \<and> torqueLevel CS > TORQUE_LEVEL_DECEL
                   \<and> v_ego CS \<ge> 10.0 * MPH_TO_MS
                   \<and> \<bar>torqueLevel CS\<bar> < \<bar>lastTorqueForPedalForZeroTorque s1\<bar>
                   \<and> prev_tesla_accel s1 > 0.0
                then s1\<lparr>PedalForZeroTorque := prev_tesla_accel s1,
                        lastTorqueForPedalForZeroTorque := torqueLevel CS\<rparr>
                else s1);
          s3 = (if set_speed_limit_active \<and> speed_limit_ms > 0 then
                  (let s' = s2\<lparr>speed_limit_kph :=
                                  (speed_limit_ms + speed_limit_offset) * MS_TO_KPH\<rparr>
                   in if py_int (prev_speed_limit_kph s') \<noteq> py_int (speed_limit_kph s')
                      then s'\<lparr>pedal_speed_kph := speed_limit_kph s',
                               fleet_speed := reset_averager ext (fleet_speed s')\<rparr>
                      else s')
                else s2\<lparr>speed_limit_kph := 0.0\<rparr>)
      in s3\<lparr>pedal_idx := (pedal_idx s3 + 1) mod 16\<rparr>)"

definition pdl_envelope ::
  "('loc, 'fs) externals \<Rightarrow> ('loc, 'fs) PCC \<Rightarrow> CarState \<Rightarrow> lead option \<Rightarrow> int
     \<Rightarrow> error + (('loc, 'fs) PCC \<times> (real \<times> real) \<times> (real \<times> real))" where
  "pdl_envelope ext s CS radSt curr_time_ms =
     (let s1 = (case radSt of
                  None \<Rightarrow> s
                | Some leadOne \<Rightarrow>
                    (let s' = s\<lparr>lead_1 := Some leadOne\<rparr>
                     in if is_present (lead_1 s')
                        then s'\<lparr>lead_last_seen_time_ms := curr_time_ms,
                                 continuous_lead_sightings := continuous_lead_sightings s' + 1\<rparr>
                        else s'\<lparr>continuous_lead_sightings := 0\<rparr>));
          v = v_ego CS;
          following =
            (case lead_1 s1 of
               None \<Rightarrow> False
             | Some l \<Rightarrow> status l \<and> dRel l < MAX_RADAR_DISTANCE \<and> vLeadK l > v
                          \<and> aLeadK l > 0.0);
          limits0 = calc_cruise_accel_limits ext v following;
          limits1 = (fst limits0, snd limits0 * accel_limit_multiplier CS (lead_1 s1))
      in case decel_limit (fst limits1) (v_ego CS) (lead_1 s1) CS (pedal_speed_kph s1) of
           Inl e \<Rightarrow> Inl e
         | Inr lo \<Rightarrow>
            (let limits2 = (lo, snd limits1);
                 jerk_limits = (min (- 0.1) (fst limits2 / 2.0), max 0.1 (snd limits2 / 2.0));
                 accel_limits = limit_accel_in_turns ext v (angle_steers CS) limits2 CS
             in Inr (s1, accel_limits, jerk_limits)))"

text \<open>The branch that the source puts under \<open>if False\<close>: the follow mode.\<close>

definition follow_request ::
  "('loc, 'fs) externals \<Rightarrow> ('loc, 'fs) PCC \<Rightarrow> CarState \<Rightarrow> int \<Rightarrow> bool \<Rightarrow> map_data option
     \<Rightarrow> real \<times> real \<Rightarrow> real \<times> real
     \<Rightarrow> error + (('loc, 'fs) PCC \<times> bool \<times> real \<times> real)" where
  "follow_request ext s CS frame alca_enabled mapd accel_limits jerk_limits =
     (let MPC_BRAKE_MULTIPLIER = 6.0
      in case (if enable_pedal_cruise s then
                 (case LoC s of
                    None \<Rightarrow> Inl AttributeError
                  | Some l \<Rightarrow> Inr (long_control_state ext l
                                     \<in> {LongCtrlState_pid, LongCtrlState_stopping}))
               else Inr False) of
           Inl e \<Rightarrow> Inl e
         | Inr enabled \<Rightarrow>
            (let s1 = s\<lparr>prev_accelerator_pedal_pressed := accelerator_pedal_pressed s\<rparr>;
                 s2 = s1\<lparr>accelerator_pedal_pressed := (pedal_interceptor_value CS > 5)\<rparr>;
                 s3 = (if \<not> accelerator_pedal_pressed s2 \<and> prev_accelerator_pedal_pressed s2
                       then reset ext s2 (v_ego CS) else s2)
             in if enable_pedal_cruise s3 \<and> \<not> accelerator_pedal_pressed s3 then
                  (case calc_follow_speed_ms s3 CS alca_enabled of
                     Inl e \<Rightarrow> Inl e
                   | Inr (r, s4) \<Rightarrow>
                      (let s5 = s4\<lparr>v_pid := (case r of None \<Rightarrow> 0 | Some x \<Rightarrow> x)\<rparr>;
                           s6 = (case mapd of
                                   None \<Rightarrow> s5
                                 | Some md \<Rightarrow>
                                     (case max_v_in_mapped_curve_ms md (pedal_speed_kph s5) of
                                        None \<Rightarrow> s5
                                      | Some v_curve \<Rightarrow>
                                          if v_curve \<noteq> 0
                                          then s5\<lparr>v_pid := min (v_pid s5) v_curve\<rparr> else s5))
                       in case fleet_adjust ext (fleet_speed s6) CS
                                 (pedal_speed_kph s6 * KPH_TO_MS) frame of
                            (adj, fs) \<Rightarrow>
                              (let s7 = s6\<lparr>fleet_speed := fs, v_pid := min (v_pid s6) adj\<rparr>;
                                   s8 = s7\<lparr>v_pid := max (v_pid s7) 0.0\<rparr>
                               in case speed_smoother ext (v_acc_start s8) (a_acc_start s8)
                                         (v_pid s8) (snd accel_limits) (fst accel_limits)
                                         (snd jerk_limits) (fst jerk_limits) DT_MPC of
                                    (vc, ac) \<Rightarrow>
                                      (let s9 = s8\<lparr>v_cruise := max vc 0.0, a_cruise := ac\<rparr>;
                                           s10 = s9\<lparr>v_acc := v_cruise s9, a_acc := a_cruise s9,
                                                    v_acc_future := v_pid s9\<rparr>;
                                           s11 = s10\<lparr>a_acc_sol := a_acc_start s10
                                                     + (DT / DT_MPC) * (a_acc s10 - a_acc_start s10)\<rparr>;
                                           s12 = s11\<lparr>v_acc_sol := v_acc_start s11
                                                     + DT * (a_acc_sol s11 + a_acc_start s11) / 2.0\<rparr>;
                                           s13 = s12\<lparr>v_acc_start := v_acc_sol s12,
                                                     a_acc_start := a_acc_sol s12\<rparr>;
                                           vTarget = clip (v_acc_sol s13) 0 (v_cruise s13);
                                           s14 = s13\<lparr>vTargetFuture :=
                                                       clip (v_acc_future s13) 0 (v_pid s13)\<rparr>;
                                           feedforward = a_acc_sol s14
                                       in case LoC s14 of
                                            None \<Rightarrow> Inl AttributeError
                                          | Some l \<Rightarrow>
                                             (case LongControl_update ext l (enable_pedal_cruise s14)
                                                     (v_cruise s14) vTarget (vTargetFuture s14)
                                                     feedforward CS of
                                                ((t_go, t_brake), l') \<Rightarrow>
                                                  Inr (s14\<lparr>LoC := Some l'\<rparr>, enabled,
                                                       t_go - t_brake, MPC_BRAKE_MULTIPLIER))))))
                else
                  (let s4 = reset ext s3 (v_ego CS)
                   in case LoC s4 of
                        None \<Rightarrow> Inl AttributeError
                      | Some l \<Rightarrow>
                         (let starting = (long_control_state ext l = LongCtrlState_starting);
                              a_ego' = min (a_ego CS) 0.0;
                              reset_speed = (if starting then MIN_CAN_SPEED else v_ego CS);
                              reset_accel = (if starting then startAccel CS else a_ego')
                          in Inr (s4\<lparr>v_acc := reset_speed, a_acc := reset_accel,
                                      v_acc_start := reset_speed, a_acc_start := reset_accel,
                                      v_cruise := reset_speed, a_cruise := reset_accel,
                                      v_acc_sol := reset_speed, a_acc_sol := reset_accel,
                                      v_pid := reset_speed, last_speed_kph := None\<rparr>,
                                  enabled, 0.0, MPC_BRAKE_MULTIPLIER)))))"

text \<open>The branch under \<open>else\<close>: the request of the longitudinal planner.\<close>

definition op_request ::
  "('loc, 'fs) PCC \<Rightarrow> bool \<Rightarrow> actuators \<Rightarrow> real
     \<Rightarrow> error + (('loc, 'fs) PCC \<times> bool \<times> real \<times> real)" where
  "op_request s enabled acts pcm_speed =
     (let output_gb = gas acts - brake acts;
          s1 = s\<lparr>v_pid := pcm_speed\<rparr>;
          MPC_BRAKE_MULTIPLIER = 12.0
      in Inr (s1, enabled, output_gb, MPC_BRAKE_MULTIPLIER))"

definition pdl_request ::
  "('loc, 'fs) externals \<Rightarrow> ('loc, 'fs) PCC \<Rightarrow> bool \<Rightarrow> CarState \<Rightarrow> int \<Rightarrow> actuators \<Rightarrow> real
     \<Rightarrow> bool \<Rightarrow> map_data option \<Rightarrow> real \<times> real \<Rightarrow> real \<times> real
     \<Rightarrow> error + (('loc, 'fs) PCC \<times> bool \<times> real \<times> real)" where
  "pdl_request ext s enabled CS frame acts pcm_speed alca_enabled mapd accel_limits jerk_limits =
     (if False then follow_request ext s CS frame alca_enabled mapd accel_limits jerk_limits
      else op_request s enabled acts pcm_speed)"

definition pdl_encode ::
  "('loc, 'fs) PCC \<Rightarrow> bool \<Rightarrow> CarState \<Rightarrow> real \<Rightarrow> real \<Rightarrow> int
     \<Rightarrow> error + (('loc, 'fs) PCC \<times> real \<times> real \<times> int)" where
  "pdl_encode s enabled CS output_gb MPC_BRAKE_MULTIPLIER idx =
     (let s1 = s\<lparr>last_output_gb := output_gb\<rparr>;
          apply_accel = clip output_gb 0.0 1
      in case brake_pedal_min (v_ego CS) (v_pid s1) (lead_1 s1) CS (pedal_speed_kph s1) of
           Inl e \<Rightarrow> Inl e
         | Inr brake_min \<Rightarrow>
            (let apply_brake = - clip (output_gb * MPC_BRAKE_MULTIPLIER) brake_min 0.0;
                 pedal_zero = (if v_ego CS \<ge> 5.0 * MPH_TO_MS then PedalForZeroTorque s1 else 0.0);
                 tesla_brake = clip ((1.0 - apply_brake) * pedal_zero) 0 pedal_zero;
                 tesla_accel = clip (apply_accel * (MAX_PEDAL_VALUE - pedal_zero)) 0
                                 (MAX_PEDAL_VALUE - pedal_zero);
                 tesla_pedal = tesla_brake + tesla_accel
             in case pedal_hysteresis s1 tesla_pedal enabled of
                  (tesla_pedal1, s2) \<Rightarrow>
                    (let tesla_pedal2 = clip tesla_pedal1 (prev_tesla_pedal s2 - PEDAL_MAX_DOWN)
                                          (prev_tesla_pedal s2 + PEDAL_MAX_UP);
                         tesla_pedal3 = (if enable_pedal_cruise s2
                                         then clip tesla_pedal2 0.0 MAX_PEDAL_VALUE else 0.0);
                         enable_pedal = (if enable_pedal_cruise s2 then 1.0 else 0.0);
                         s3 = s2\<lparr>torqueLevel_last := torqueLevel CS,
                                 prev_tesla_pedal := tesla_pedal3 * enable_pedal,
                                 prev_tesla_accel := apply_accel * enable_pedal,
                                 prev_v_ego := v_ego CS\<rparr>
                     in Inr (s3, prev_tesla_pedal s3, enable_pedal, idx))))"

definition update_pdl ::
  "('loc, 'fs) externals \<Rightarrow> ('loc, 'fs) PCC \<Rightarrow> bool \<Rightarrow> CarState \<Rightarrow> int \<Rightarrow> actuators \<Rightarrow> real
     \<Rightarrow> bool \<Rightarrow> real \<Rightarrow> bool \<Rightarrow> real \<Rightarrow> bool \<Rightarrow> lead option \<Rightarrow> map_data option \<Rightarrow> int
     \<Rightarrow> error + (('loc, 'fs) PCC \<times> real \<times> real \<times> int)" where
  "update_pdl ext s enabled CS frame acts pcm_speed pcm_override speed_limit_ms
     set_speed_limit_active speed_limit_offset alca_enabled radSt mapd curr_time_ms =
     (let idx = pedal_idx s;
          s1 = pdl_prepare ext s CS speed_limit_ms set_speed_limit_active speed_limit_offset
      in if \<not> pcc_available s1 \<or> \<not> enabled then Inr (s1, 0.0, 0, idx)
         else
           (case pdl_envelope ext s1 CS radSt curr_time_ms of
              Inl e \<Rightarrow> Inl e
            | Inr (s2, accel_limits, jerk_limits) \<Rightarrow>
               (case pdl_request ext s2 enabled CS frame acts pcm_speed alca_enabled mapd
                       accel_limits jerk_limits of
                  Inl e \<Rightarrow> Inl e
                | Inr (s3, enabled', output_gb, MPC_BRAKE_MULTIPLIER) \<Rightarrow>
                    pdl_encode s3 enabled' CS output_gb MPC_BRAKE_MULTIPLIER idx)))"

text \<open>
  The controller with the follow branch removed, as the spec describes the primary
  path: the request is \<open>gas - brake\<close> and the brake multiplier is 12.
\<close>

definition update_pdl_op_only ::
  "('loc, 'fs) externals \<Rightarrow> ('loc, 'fs) PCC \<Rightarrow> bool \<Rightarrow> CarState \<Rightarrow> int \<Rightarrow> actuators \<Rightarrow> real
     \<Rightarrow> bool \<Rightarrow> real \<Rightarrow> bool \<Rightarrow> real \<Rightarrow> bool \<Rightarrow> lead option \<Rightarrow> map_data option \<Rightarrow> int
     \<Rightarrow> error + (('loc, 'fs) PCC \<times> real \<times> real \<times> int)" where
  "update_pdl_op_only ext s enabled CS frame acts pcm_speed pcm_override speed_limit_ms
     set_speed_limit_active speed_limit_offset alca_enabled radSt mapd curr_time_ms =
     (let idx = pedal_idx s;
          s1 = pdl_prepare ext s CS speed_limit_ms set_speed_limit_active speed_limit_offset
      in if \<not> pcc_available s1 \<or> \<not> enabled then Inr (s1, 0.0, 0, idx)
         else
           (case pdl_envelope ext s1 CS radSt curr_time_ms of
              Inl e \<Rightarrow> Inl e
            | Inr (s2, accel_limits, jerk_limits) \<Rightarrow>
                pdl_encode (s2\<lparr>v_pid := pcm_speed\<rparr>) enabled CS (gas acts - brake acts) 12 idx))"

section \<open>Concrete inputs\<close>

text \<open>
  A car state, a lead, the collaborators and the controller as \<open>__init__\<close> leaves
  it, for evaluating the definitions. The collaborators are the simplest ones of
  their types; standard cruise is off exactly when its status code is 0.
\<close>

definition example_CS :: CarState where
  "example_CS = \<lparr>v_ego = 20, a_ego = 0, angle_steers = 0, torqueLevel = 0,
     apFollowTimeInS = 2, pedal_interceptor_value = 0, startAccel = 0,
     brake_pressed = False, imperial_speed_units = False, useTeslaRadar = False,
     useWithoutHarness = False, forcePedalOverCC = False, turn_signal_blinking = False,
     cruise_buttons = IDLE, pcm_acc_status = 0, pedal_interceptor_state = 0,
     cs_pedal_idx = 0, cs_prev_pedal_idx = 0, teslaModel = ''S'',
     button_status = 1, button_label2 = ''OP''\<rparr>"

definition example_lead :: "real \<Rightarrow> real \<Rightarrow> lead" where
  "example_lead d v = \<lparr>dRel = d, vRel = v, aRel = 0, vLeadK = 0, aLeadK = 0, status = True\<rparr>"

definition example_ext :: "(unit, unit) externals" where
  "example_ext = \<lparr>CruiseState_is_off = (\<lambda>st. st = 0),
     LongControl_new = (\<lambda>CS. ()), load_pid = (\<lambda>l. l), LongControl_reset = (\<lambda>l v. l),
     LongControl_update = (\<lambda>l en vc vt vf ff CS. ((0, 0), l)),
     long_control_state = (\<lambda>l. LongCtrlState_pid),
     reset_averager = (\<lambda>f. f), fleet_adjust = (\<lambda>f CS v fr. (v, f)),
     calc_cruise_accel_limits = (\<lambda>v following. (- 1, 1)),
     limit_accel_in_turns = (\<lambda>v a lim CS. lim),
     speed_smoother = (\<lambda>v0 a0 vt amax amin jmax jmin dt. (vt, 0)),
     config_ui_buttons = (\<lambda>CS a b. CS)\<rparr>"

definition init_PCC :: "(unit, unit) PCC" where
  "init_PCC = \<lparr>pcc_available = False, prev_pcc_available = False, pedal_timeout_frame = 0,
     accelerator_pedal_pressed = False, prev_accelerator_pedal_pressed = False,
     lead_1 = None, enable_pedal_cruise = False, stalk_pull_time_ms = 0,
     prev_stalk_pull_time_ms = - 1000, prev_pcm_acc_status = 0, prev_cruise_buttons = IDLE,
     pedal_speed_kph = 0, speed_limit_kph = 0, prev_speed_limit_kph = 0, pedal_idx = 0,
     pedal_steady = 0, prev_tesla_accel = 0, prev_tesla_pedal = 0, torqueLevel_last = 0,
     prev_v_ego = 0, PedalForZeroTorque = 18, lastTorqueForPedalForZeroTorque = - 30,
     v_pid = 0, last_output_gb = 0, last_speed_kph = None, v_acc_start = 0, a_acc_start = 0,
     v_acc = 0, v_acc_sol = 0, v_acc_future = 0, a_acc = 0, a_acc_sol = 0, v_cruise = 0,
     a_cruise = 0, vTargetFuture = 0, LoC = None, lead_last_seen_time_ms = 0,
     continuous_lead_sightings = 0, fleet_speed = ()\<rparr>"

text \<open>An engaged controller that follows a lead 5 m ahead, with a target of 100 kph.\<close>

definition following_PCC :: "(unit, unit) PCC" where
  "following_PCC = init_PCC\<lparr>lead_1 := Some (example_lead 5 (1 / 3.6)),
     enable_pedal_cruise := True, pedal_speed_kph := 100\<rparr>"

text \<open>
  A controller in standby with the pedal available, whose stalk was last pulled at
  1000 ms, and the same controller engaged; a car state in which the stalk is pulled.
\<close>

definition standby_PCC :: "(unit, unit) PCC" where
  "standby_PCC = init_PCC\<lparr>pcc_available := True, prev_pcc_available := True,
     pedal_timeout_frame := 100, stalk_pull_time_ms := 1000, LoC := Some ()\<rparr>"

definition engaged_PCC :: "(unit, unit) PCC" where
  "engaged_PCC = standby_PCC\<lparr>enable_pedal_cruise := True\<rparr>"

definition press_CS :: CarState where
  "press_CS = example_CS\<lparr>cruise_buttons := MAIN\<rparr>"

text \<open>The controller in standby whose pedal has timed out: the deadline is frame 0.\<close>

definition timed_out_PCC :: "(unit, unit) PCC" where
  "timed_out_PCC = standby_PCC\<lparr>pedal_timeout_frame := 0\<rparr>"

text \<open>
  An engaged controller in the middle of a run, its last pedal value 50, and its
  states after two more cycles at full gas; the same controller disengaged; a car
  state whose user interface selects the follow mode.
\<close>

definition cruising_PCC :: "(unit, unit) PCC" where
  "cruising_PCC = init_PCC\<lparr>pcc_available := True, enable_pedal_cruise := True,
     prev_tesla_pedal := 50, pedal_steady := 50, LoC := Some ()\<rparr>"

definition cruising_PCC_1 :: "(unit, unit) PCC" where
  "cruising_PCC_1 = cruising_PCC\<lparr>pedal_idx := 1, v_pid := 20, last_output_gb := 1,
     pedal_steady := 99, prev_tesla_pedal := 52.5, prev_tesla_accel := 1, prev_v_ego := 20\<rparr>"

definition cruising_PCC_2 :: "(unit, unit) PCC" where
  "cruising_PCC_2 = cruising_PCC_1\<lparr>pedal_idx := 2, prev_tesla_pedal := 55\<rparr>"

definition disengaged_PCC :: "(unit, unit) PCC" where
  "disengaged_PCC = cruising_PCC_2\<lparr>enable_pedal_cruise := False\<rparr>"

definition full_gas :: actuators where
  "full_gas = \<lparr>gas = 1, brake = 0\<rparr>"

definition follow_CS :: CarState where
  "follow_CS = example_CS\<lparr>button_label2 := ''FOLLOW''\<rparr>"

section \<open>Verification\<close>

subsection \<open>The time-to-collision helper\<close>

lemma sec_til_collision_returns:
  assumes "\<not> (vRel l < 0 \<and> vRel l + min 0 (aRel l) * apFollowTimeInS CS = 0)"
  shows "\<exists>t. sec_til_collision (Some l) CS = Inr t"
proof (cases "0 < dRel l \<and> vRel l < 0")
  case True
  with assms have "vRel l + min 0 (aRel l) * apFollowTimeInS CS \<noteq> 0" by blast
  with True show ?thesis
    by (cases "useTeslaRadar CS") (simp_all add: sec_til_collision_def is_present_def Let_def)
next
  case False
  then show ?thesis by (auto simp add: sec_til_collision_def is_present_def)
qed

lemma sec_til_collision_raises:
  assumes "0 < dRel l" and "vRel l < 0"
    and "vRel l + min 0 (aRel l) * apFollowTimeInS CS = 0"
  shows "sec_til_collision (Some l) CS = Inl ZeroDivisionError"
  using assms by (simp add: sec_til_collision_def is_present_def Let_def)

lemma visual_radar_adjusted_dist_m_nonneg: "0 \<le> visual_radar_adjusted_dist_m m CS"
  by (simp add: visual_radar_adjusted_dist_m_def interp_map_def)

text \<open>
  C7, as the code has it. The helper returns the sentinel 60 when the lead is absent,
  not ahead (\<open>dRel \<le> 0\<close>) or not closing (\<open>vRel \<ge> 0\<close>). For a present, closing lead
  seen without the dedicated radar it returns the bias-adjusted distance divided by
  \<open>|vRel + min(0, aRel) * apFollowTimeInS|\<close>, provided that divisor is not zero; the
  value is not negative, and nothing in the helper keeps it above 0.1 (the caller
  \<open>_decel_limit\<close> applies that floor to its own copy).
\<close>

theorem sec_til_collision_contract:
  "sec_til_collision None CS = Inr 60 \<and>
   (dRel l \<le> 0 \<or> 0 \<le> vRel l \<longrightarrow> sec_til_collision (Some l) CS = Inr 60) \<and>
   (0 < dRel l \<and> vRel l < 0 \<and> \<not> useTeslaRadar CS
      \<and> vRel l + min 0 (aRel l) * apFollowTimeInS CS \<noteq> 0 \<longrightarrow>
    sec_til_collision (Some l) CS =
      Inr (visual_radar_adjusted_dist_m (dRel l) CS
           / \<bar>vRel l + min 0 (aRel l) * apFollowTimeInS CS\<bar>)
    \<and> 0 \<le> visual_radar_adjusted_dist_m (dRel l) CS
           / \<bar>vRel l + min 0 (aRel l) * apFollowTimeInS CS\<bar>)"
  using visual_radar_adjusted_dist_m_nonneg [of "dRel l" CS]
  by (auto simp add: sec_til_collision_def is_present_def Let_def)

theorem sec_til_collision_contract_witness:
  "sec_til_collision None example_CS = Inr 60 \<and>
   sec_til_collision (Some (example_lead 50 3)) example_CS = Inr 60 \<and>
   sec_til_collision (Some (example_lead 503.5 (- 2))) example_CS = Inr 250"
proof -
  have d: "visual_radar_adjusted_dist_m 503.5 example_CS = 500"
    by (simp add: visual_radar_adjusted_dist_m_def interp_map_def)
  show ?thesis
    using sec_til_collision_contract [of example_CS "example_lead 50 3"]
      sec_til_collision_contract [of example_CS "example_lead 503.5 (- 2)"] d
    by (simp add: example_lead_def example_CS_def)
qed

text \<open>
  C7 as stated fails: a lead 5 m ahead that closes at 1 m/s, seen without the
  dedicated radar, gives 0 s, which is below the 0.1 s floor.
\<close>

theorem sec_til_collision_floor_counterexample:
  "sec_til_collision (Some (example_lead 5 (- 1))) example_CS = Inr 0"
  by (simp add: sec_til_collision_def is_present_def example_lead_def example_CS_def
      visual_radar_adjusted_dist_m_def interp_map_def)

subsection \<open>The deceleration limit\<close>

text \<open>
  C2, as the code has it. For a lead strictly between 0 and 6 m the limit is exactly
  -100, except that the call of \<open>_sec_til_collision\<close> made first raises when the
  lead closes and \<open>vRel + min(0, aRel) * apFollowTimeInS\<close> is zero (which a follow
  time that is not negative excludes).
\<close>

theorem decel_limit_min_dist:
  assumes "0 < dRel l" and "dRel l < 6"
  shows "decel_limit accel_min v_ego_ms (Some l) CS max_speed_kph =
     (if vRel l < 0 \<and> vRel l + min 0 (aRel l) * apFollowTimeInS CS = 0
      then Inl ZeroDivisionError else Inr (- 100))"
proof (cases "vRel l < 0 \<and> vRel l + min 0 (aRel l) * apFollowTimeInS CS = 0")
  case True
  with assms have "sec_til_collision (Some l) CS = Inl ZeroDivisionError"
    by (simp add: sec_til_collision_raises)
  with True assms show ?thesis
    by (simp add: decel_limit_def is_present_def Let_def)
next
  case False
  then obtain t where "sec_til_collision (Some l) CS = Inr t"
    using sec_til_collision_returns by blast
  with False assms show ?thesis
    by (simp add: decel_limit_def is_present_def Let_def)
qed

theorem decel_limit_min_dist_witness:
  "decel_limit (- 1) 10 (Some (example_lead 5 (- 1))) example_CS 100 = Inr (- 100)"
  using decel_limit_min_dist [of "example_lead 5 (- 1)" "- 1" 10 example_CS 100]
  by (simp add: example_lead_def example_CS_def)

text \<open>
  C2 as stated fails at 0 m: a lead with \<open>dRel = 0\<close> is not present, and the limit is
  the no-lead value \<open>accel_min * 0.5 * max_speed_mult\<close>, here -0.5.
\<close>

theorem decel_limit_zero_dist_counterexample:
  "decel_limit (- 1) 10 (Some (example_lead 0 0)) example_CS 100 = Inr (- (1 / 2))"
  by (simp add: decel_limit_def is_present_def example_lead_def example_CS_def
      safe_distance_m_def)

subsection \<open>The brake-fraction floor\<close>

text \<open>
  C10. \<open>_brake_pedal_min\<close> returns a value for every input: where it divides by
  \<open>v_ego\<close>, the speed is above 7 mph and so not zero.
\<close>

theorem brake_pedal_min_total:
  "\<exists>r. brake_pedal_min v_ego_ms v_target ld CS max_speed_kph = Inr r"
  by (simp add: brake_pedal_min_def Let_def)

subsection \<open>The follow-speed planner\<close>

text \<open>
  C1. With a stored lead whose distance, adjusted for the visual radar when the
  dedicated radar is not in use, is strictly between 0 and 6 m, and a relative speed
  (zeroed when within 0.5 m/s of zero) below 3 kph, \<open>calc_follow_speed_ms\<close> returns
  the target 0 and stores 0 as the last target, whatever the rest of the state and
  input are.
\<close>

theorem calc_follow_speed_min_dist:
  assumes "lead_1 s = Some l"
    and "lead_dist_m =
      (if \<not> useTeslaRadar CS then visual_radar_adjusted_dist_m (dRel l) CS else dRel l)"
    and "0 < lead_dist_m" and "lead_dist_m < 6"
    and "(if \<bar>vRel l\<bar> > 0.5 then vRel l else 0) * MS_TO_KPH < 3"
  shows "calc_follow_speed_ms s CS alca_enabled = Inr (Some 0, s\<lparr>last_speed_kph := Some 0\<rparr>)"
  using assms
  by (simp add: calc_follow_speed_ms_def Let_def)

theorem calc_follow_speed_min_dist_witness:
  "calc_follow_speed_ms following_PCC (example_CS\<lparr>useTeslaRadar := True\<rparr>) False
     = Inr (Some 0, following_PCC\<lparr>last_speed_kph := Some 0\<rparr>)"
  using calc_follow_speed_min_dist [of following_PCC "example_lead 5 (1 / 3.6)" 5
      "example_CS\<lparr>useTeslaRadar := True\<rparr>" False]
  by (simp add: following_PCC_def example_lead_def example_CS_def)

subsection \<open>The engagement state machine\<close>

lemmas stat_eval = update_stat_def init_LoC_def update_pedal_state_def unavailable_cycle_def
  disable_on_brake_def process_stalk_def notify_toggle_def update_ui_status_def reset_def
  py_int_def Let_def engaged_PCC_def standby_PCC_def press_CS_def init_PCC_def example_CS_def
  example_ext_def

lemma init_LoC_keeps:
  "enable_pedal_cruise (init_LoC ext s CS) = enable_pedal_cruise s"
  "stalk_pull_time_ms (init_LoC ext s CS) = stalk_pull_time_ms s"
  "prev_cruise_buttons (init_LoC ext s CS) = prev_cruise_buttons s"
  "pedal_speed_kph (init_LoC ext s CS) = pedal_speed_kph s"
  "speed_limit_kph (init_LoC ext s CS) = speed_limit_kph s"
  by (simp_all add: init_LoC_def Let_def split: option.splits)

lemma update_pedal_state_keeps:
  assumes "update_pedal_state ext s CS frame = (s1, CS1)"
  shows "enable_pedal_cruise s1 = enable_pedal_cruise s"
    and "stalk_pull_time_ms s1 = stalk_pull_time_ms s"
    and "prev_cruise_buttons s1 = prev_cruise_buttons s"
    and "pedal_speed_kph s1 = pedal_speed_kph s"
    and "speed_limit_kph s1 = speed_limit_kph s"
  using assms by (auto simp add: update_pedal_state_def Let_def split: if_splits)

lemma disable_on_brake_state:
  "enable_pedal_cruise (fst (disable_on_brake ext s CS))
     = (enable_pedal_cruise s \<and> \<not> brake_pressed CS)"
  "stalk_pull_time_ms (fst (disable_on_brake ext s CS)) = stalk_pull_time_ms s"
  "prev_cruise_buttons (fst (disable_on_brake ext s CS)) = prev_cruise_buttons s"
  "pedal_speed_kph (fst (disable_on_brake ext s CS)) = pedal_speed_kph s"
  "speed_limit_kph (fst (disable_on_brake ext s CS)) = speed_limit_kph s"
  by (auto simp add: disable_on_brake_def reset_def split: option.splits)

lemma disable_on_brake_fired:
  "disable_on_brake ext s CS = (s, []) \<or>
   (snd (disable_on_brake ext s CS) = [BrakeDisable]
      \<and> \<not> enable_pedal_cruise (fst (disable_on_brake ext s CS)))"
  by (simp add: disable_on_brake_def reset_def split: option.splits)

lemma notify_toggle_keeps:
  assumes "notify_toggle ext p s CS = (s', CS', evs)"
  shows "enable_pedal_cruise s' = enable_pedal_cruise s"
    and "pedal_speed_kph s' = pedal_speed_kph s"
  using assms by (auto simp add: notify_toggle_def split: if_splits)

lemma process_stalk_fired:
  "snd (process_stalk ext s CS now) \<in> {[], [MainStalkPress], [CancelPress], [SpeedAdjust],
      [CruiseTakeoverDisable], [SinglePullDisable]}"
  by (simp add: process_stalk_def Let_def)

lemma process_stalk_fired_disabled:
  assumes "\<not> enable_pedal_cruise s"
  shows "snd (process_stalk ext s CS now) \<in> {[], [MainStalkPress], [CancelPress]}"
  using assms by (simp add: process_stalk_def Let_def)

lemma process_stalk_main_edge:
  assumes "cruise_buttons CS = MAIN" and "prev_cruise_buttons s \<noteq> MAIN"
    and "button_status CS > PCCState_OFF \<and> CruiseState_is_off ext (pcm_acc_status CS)
         \<or> forcePedalOverCC CS"
  shows "now - stalk_pull_time_ms s < 750 \<longrightarrow>
           enable_pedal_cruise (fst (process_stalk ext s CS now))
           \<and> pedal_speed_kph (fst (process_stalk ext s CS now)) =
               max (real_of_int (py_int (v_ego CS * MS_TO_KPH
                       / (if imperial_speed_units CS then MPH_TO_KPH else 1.0) + 0.5))
                    * (if imperial_speed_units CS then MPH_TO_KPH else 1.0))
                   (speed_limit_kph s)"
    and "\<not> now - stalk_pull_time_ms s < 750 \<longrightarrow>
           enable_pedal_cruise (fst (process_stalk ext s CS now)) = enable_pedal_cruise s
           \<and> pedal_speed_kph (fst (process_stalk ext s CS now)) = pedal_speed_kph s"
  using assms
  by (auto simp add: process_stalk_def reset_def Let_def split: option.splits)

lemma unavailable_cycle_fired: "fired (unavailable_cycle s CS frame) = []"
  by (simp add: unavailable_cycle_def Let_def)

lemma update_stat_fired:
  "fired (update_stat ext s CS frame now) =
     (case update_pedal_state ext (init_LoC ext s CS) CS frame of
        (s1, CS1) \<Rightarrow>
          if \<not> pcc_available s1 then []
          else snd (disable_on_brake ext s1 CS1)
               @ snd (process_stalk ext (fst (disable_on_brake ext s1 CS1)) CS1 now))"
  by (simp add: update_stat_def unavailable_cycle_fired Let_def split: prod.splits)

lemma update_stat_new_state:
  assumes "update_pedal_state ext (init_LoC ext s CS) CS frame = (s1, CS1)"
    and "pcc_available s1"
  shows "enable_pedal_cruise (new_state (update_stat ext s CS frame now)) =
           enable_pedal_cruise (fst (process_stalk ext (fst (disable_on_brake ext s1 CS1)) CS1 now))"
    and "pedal_speed_kph (new_state (update_stat ext s CS frame now)) =
           pedal_speed_kph (fst (process_stalk ext (fst (disable_on_brake ext s1 CS1)) CS1 now))"
  using assms
  by (auto simp add: update_stat_def Let_def split: prod.splits dest: notify_toggle_keeps)

lemma standby_pedal_state:
  "update_pedal_state example_ext (init_LoC example_ext standby_PCC (press_CS\<lparr>v_ego := v\<rparr>))
      (press_CS\<lparr>v_ego := v\<rparr>) 10
     = (standby_PCC, press_CS\<lparr>v_ego := v\<rparr>)"
  by (simp add: update_pedal_state_def init_LoC_def standby_PCC_def press_CS_def init_PCC_def
      example_CS_def example_ext_def Let_def)

text \<open>
  C4, as the code has it. The list \<open>fired\<close> holds the transitions a cycle ran. The
  chain over the stalk (transitions 3 to 7) runs at most one of them. The brake
  check (transition 2) is a separate statement before the chain: it runs at most
  once, and when it ran, the chain can still run the main-stalk press or the cancel,
  but none of the three transitions that need the controller engaged.
\<close>

theorem update_stat_single_transition:
  "length (filter (\<lambda>t. t \<noteq> BrakeDisable) (fired (update_stat ext s CS frame now))) \<le> 1
   \<and> length (filter (\<lambda>t. t = BrakeDisable) (fired (update_stat ext s CS frame now))) \<le> 1
   \<and> (BrakeDisable \<in> set (fired (update_stat ext s CS frame now)) \<longrightarrow>
        set (fired (update_stat ext s CS frame now))
          \<subseteq> {BrakeDisable, MainStalkPress, CancelPress})"
proof -
  obtain s1 CS1 where u: "update_pedal_state ext (init_LoC ext s CS) CS frame = (s1, CS1)"
    by (cases "update_pedal_state ext (init_LoC ext s CS) CS frame")
  show ?thesis
  proof (cases "pcc_available s1")
    case False
    with u show ?thesis by (simp add: update_stat_fired)
  next
    case True
    let ?b = "disable_on_brake ext s1 CS1"
    have f: "fired (update_stat ext s CS frame now)
        = snd ?b @ snd (process_stalk ext (fst ?b) CS1 now)"
      using u True by (simp add: update_stat_fired)
    from disable_on_brake_fired [of ext s1 CS1] show ?thesis
    proof
      assume "?b = (s1, [])"
      with f process_stalk_fired [of ext s1 CS1 now] show ?thesis by auto
    next
      assume "snd ?b = [BrakeDisable] \<and> \<not> enable_pedal_cruise (fst ?b)"
      with f process_stalk_fired_disabled [of "fst ?b" ext CS1 now] show ?thesis by auto
    qed
  qed
qed

theorem update_stat_single_transition_witness:
  "fired (update_stat example_ext engaged_PCC (example_CS\<lparr>cruise_buttons := CANCEL\<rparr>) 10 5000)
     = [CancelPress]
   \<and> length (filter (\<lambda>t. t \<noteq> BrakeDisable)
        (fired (update_stat example_ext engaged_PCC
           (example_CS\<lparr>cruise_buttons := CANCEL\<rparr>) 10 5000))) \<le> 1"
  using update_stat_single_transition [of example_ext engaged_PCC
      "example_CS\<lparr>cruise_buttons := CANCEL\<rparr>" 10 5000]
  by (simp add: stat_eval)

text \<open>
  C4 as stated fails: with the controller engaged, the brake pressed and the stalk
  pulled in the same cycle, the brake disable and the main-stalk press both run. The
  cycle ends disengaged (which the stalk press alone never does) and with the pull
  time recorded (which the brake disable alone never does).
\<close>

theorem update_stat_brake_and_stalk_counterexample:
  "fired (update_stat example_ext engaged_PCC (press_CS\<lparr>brake_pressed := True\<rparr>) 10 5000)
     = [BrakeDisable, MainStalkPress]
   \<and> enable_pedal_cruise (new_state (update_stat example_ext engaged_PCC
        (press_CS\<lparr>brake_pressed := True\<rparr>) 10 5000)) = False
   \<and> stalk_pull_time_ms (new_state (update_stat example_ext engaged_PCC
        (press_CS\<lparr>brake_pressed := True\<rparr>) 10 5000)) = 5000"
  by (simp add: stat_eval)

text \<open>
  C5, as the code has it. In a cycle with the pedal available, a main-stalk press edge and the system
  ready (the button of the feature not off and standard cruise off, or the override
  set), let \<open>elapsed\<close> be the time since the prior press. If \<open>elapsed < 750\<close> the
  cycle ends engaged, with the target speed the maximum of the current speed rounded
  to the display unit and the speed limit. Otherwise the press engages nothing: the
  controller is engaged after the cycle only if it was before and the brake is not
  pressed, and the target speed is unchanged. So a controller that was not engaged
  is engaged after the cycle exactly when \<open>elapsed < 750\<close>.
\<close>

theorem update_stat_double_pull:
  assumes "update_pedal_state ext (init_LoC ext s CS) CS frame = (s1, CS1)"
    and "pcc_available s1"
    and "cruise_buttons CS1 = MAIN" and "prev_cruise_buttons s \<noteq> MAIN"
    and "button_status CS1 > PCCState_OFF \<and> CruiseState_is_off ext (pcm_acc_status CS1)
         \<or> forcePedalOverCC CS1"
    and "r = new_state (update_stat ext s CS frame now)"
    and "elapsed = now - stalk_pull_time_ms s"
    and "uom = (if imperial_speed_units CS1 then MPH_TO_KPH else 1.0)"
  shows "(elapsed < 750 \<longrightarrow>
            enable_pedal_cruise r
            \<and> pedal_speed_kph r =
                max (real_of_int (py_int (v_ego CS1 * MS_TO_KPH / uom + 0.5)) * uom)
                    (speed_limit_kph s))
     \<and> (\<not> elapsed < 750 \<longrightarrow>
            enable_pedal_cruise r = (enable_pedal_cruise s \<and> \<not> brake_pressed CS1)
            \<and> pedal_speed_kph r = pedal_speed_kph s)
     \<and> (\<not> enable_pedal_cruise s \<longrightarrow> (enable_pedal_cruise r \<longleftrightarrow> elapsed < 750))"
proof -
  let ?b = "fst (disable_on_brake ext s1 CS1)"
  have k1: "enable_pedal_cruise s1 = enable_pedal_cruise s"
    "stalk_pull_time_ms s1 = stalk_pull_time_ms s"
    "prev_cruise_buttons s1 = prev_cruise_buttons s"
    "pedal_speed_kph s1 = pedal_speed_kph s"
    "speed_limit_kph s1 = speed_limit_kph s"
    using update_pedal_state_keeps [OF assms(1)] by (simp_all add: init_LoC_keeps)
  have kb: "enable_pedal_cruise ?b = (enable_pedal_cruise s \<and> \<not> brake_pressed CS1)"
    "stalk_pull_time_ms ?b = stalk_pull_time_ms s"
    "prev_cruise_buttons ?b = prev_cruise_buttons s"
    "pedal_speed_kph ?b = pedal_speed_kph s"
    "speed_limit_kph ?b = speed_limit_kph s"
    by (simp_all add: disable_on_brake_state k1)
  have e: "prev_cruise_buttons ?b \<noteq> MAIN" using assms(4) kb by simp
  note m = process_stalk_main_edge [OF assms(3) e assms(5), of now]
  note n = update_stat_new_state [OF assms(1,2), of now]
  show ?thesis
    using m n kb assms(6,7,8) by auto
qed

text \<open>
  A second pull 749 ms after the first engages at 20 m/s with the target 72 kph;
  pulls 750 ms and 751 ms apart do not engage.
\<close>

theorem update_stat_double_pull_witness:
  "enable_pedal_cruise
     (new_state (update_stat example_ext standby_PCC (press_CS\<lparr>v_ego := 20\<rparr>) 10 1749))
   \<and> pedal_speed_kph
     (new_state (update_stat example_ext standby_PCC (press_CS\<lparr>v_ego := 20\<rparr>) 10 1749)) = 72
   \<and> \<not> enable_pedal_cruise
     (new_state (update_stat example_ext standby_PCC (press_CS\<lparr>v_ego := 20\<rparr>) 10 1750))
   \<and> \<not> enable_pedal_cruise
     (new_state (update_stat example_ext standby_PCC (press_CS\<lparr>v_ego := 20\<rparr>) 10 1751))"
proof -
  have a: "pcc_available standby_PCC" "prev_cruise_buttons standby_PCC \<noteq> MAIN"
    "stalk_pull_time_ms standby_PCC = 1000" "speed_limit_kph standby_PCC = 0"
    "\<not> enable_pedal_cruise standby_PCC"
    by (simp_all add: standby_PCC_def init_PCC_def)
  have b: "cruise_buttons (press_CS\<lparr>v_ego := 20\<rparr>) = MAIN"
    "button_status (press_CS\<lparr>v_ego := 20\<rparr>) > PCCState_OFF
       \<and> CruiseState_is_off example_ext (pcm_acc_status (press_CS\<lparr>v_ego := 20\<rparr>))
     \<or> forcePedalOverCC (press_CS\<lparr>v_ego := 20\<rparr>)"
    "\<not> imperial_speed_units (press_CS\<lparr>v_ego := 20\<rparr>)" "v_ego (press_CS\<lparr>v_ego := 20\<rparr>) = 20"
    by (simp_all add: press_CS_def example_CS_def example_ext_def)
  show ?thesis
    using update_stat_double_pull [OF standby_pedal_state a(1) b(1) a(2) b(2) refl refl refl,
        of 1749]
      update_stat_double_pull [OF standby_pedal_state a(1) b(1) a(2) b(2) refl refl refl,
        of 1750]
      update_stat_double_pull [OF standby_pedal_state a(1) b(1) a(2) b(2) refl refl refl,
        of 1751]
      a b
    by (simp add: py_int_def)
qed

text \<open>
  C5 as stated fails when the pedal is not available: \<open>update_stat\<close> returns
  before it looks at the stalk. With the pedal timed out, a press edge 500 ms after
  the prior press, with the system ready, runs no transition and leaves the
  controller disengaged.
\<close>

theorem update_stat_double_pull_unavailable_counterexample:
  "cruise_buttons (press_CS\<lparr>v_ego := 20\<rparr>) = MAIN
   \<and> prev_cruise_buttons timed_out_PCC \<noteq> MAIN
   \<and> button_status (press_CS\<lparr>v_ego := 20\<rparr>) > PCCState_OFF
   \<and> CruiseState_is_off example_ext (pcm_acc_status (press_CS\<lparr>v_ego := 20\<rparr>))
   \<and> 1500 - stalk_pull_time_ms timed_out_PCC < STALK_DOUBLE_PULL_MS
   \<and> fired (update_stat example_ext timed_out_PCC (press_CS\<lparr>v_ego := 20\<rparr>) 10 1500) = []
   \<and> enable_pedal_cruise
        (new_state (update_stat example_ext timed_out_PCC (press_CS\<lparr>v_ego := 20\<rparr>) 10 1500))
       = False"
  by (simp add: stat_eval timed_out_PCC_def)

text \<open>
  C6 fails on the code. The button path clips the target speed to [0, 270]; the
  double-pull path stores the maximum of the rounded current speed and the speed
  limit as it is. A double pull at 80 m/s stores 288 kph.
\<close>

theorem update_stat_double_pull_unclipped:
  "pedal_speed_kph
     (new_state (update_stat example_ext standby_PCC (press_CS\<lparr>v_ego := 80\<rparr>) 10 1500)) = 288"
  by (simp add: stat_eval)

subsection \<open>The pedal output\<close>

lemmas pdl_eval = update_pdl_def update_pdl_op_only_def pdl_prepare_def pdl_envelope_def
  pdl_request_def op_request_def pdl_encode_def pedal_hysteresis_def brake_pedal_min_def
  decel_limit_def is_present_def accel_limit_multiplier_def interp_map_def clip_def
  cruising_PCC_def cruising_PCC_1_def cruising_PCC_2_def disengaged_PCC_def init_PCC_def
  example_CS_def follow_CS_def example_ext_def full_gas_def py_int_def Let_def

lemma pdl_prepare_keeps:
  "pcc_available (pdl_prepare ext s CS sl act off) = pcc_available s"
  "enable_pedal_cruise (pdl_prepare ext s CS sl act off) = enable_pedal_cruise s"
  "prev_tesla_pedal (pdl_prepare ext s CS sl act off) = prev_tesla_pedal s"
  "pedal_steady (pdl_prepare ext s CS sl act off) = pedal_steady s"
  by (simp_all add: pdl_prepare_def Let_def)

lemma pdl_envelope_keeps:
  assumes "pdl_envelope ext s CS radSt now = Inr (s', al, jl)"
  shows "enable_pedal_cruise s' = enable_pedal_cruise s"
    and "prev_tesla_pedal s' = prev_tesla_pedal s"
    and "pedal_steady s' = pedal_steady s"
  using assms
  by (auto simp add: pdl_envelope_def Let_def split: option.splits sum.splits if_splits)

lemma slew_clip:
  assumes "0 \<le> p" and "p \<le> 100"
  shows "clip (clip x (p - PEDAL_MAX_DOWN) (p + PEDAL_MAX_UP)) 0.0 MAX_PEDAL_VALUE \<le> p + 5 / 2"
    and "p - 25 / 2 \<le> clip (clip x (p - PEDAL_MAX_DOWN) (p + PEDAL_MAX_UP)) 0.0 MAX_PEDAL_VALUE"
  using assms by (simp_all add: clip_def min_def max_def)

lemma pdl_encode_out:
  assumes "pdl_encode s en CS gb m idx = Inr (s', out, e, i)"
  shows "\<exists>x. out = (if enable_pedal_cruise s then
       clip (clip x (prev_tesla_pedal s - PEDAL_MAX_DOWN) (prev_tesla_pedal s + PEDAL_MAX_UP))
         0.0 MAX_PEDAL_VALUE else 0)
     \<and> prev_tesla_pedal s' = out"
proof (cases "brake_pedal_min (v_ego CS) (v_pid s) (lead_1 s) CS (pedal_speed_kph s)")
  case (Inl err)
  with assms show ?thesis by (simp add: pdl_encode_def Let_def)
next
  case (Inr bm)
  with assms show ?thesis
    by (cases "enable_pedal_cruise s")
      (auto simp add: pdl_encode_def pedal_hysteresis_def Let_def
        simp del: PEDAL_MAX_DOWN_def PEDAL_MAX_UP_def MAX_PEDAL_VALUE_def)
qed

lemma update_pdl_gate:
  assumes "update_pdl ext s en CS frame acts pcm_speed pcm_override sl act off alca radSt mapd now
             = Inr (s', out, e, i)"
    and "pcc_available s" and "en"
  shows "\<exists>s3 gb. pdl_encode s3 en CS gb 12 (pedal_idx s) = Inr (s', out, e, i)
     \<and> enable_pedal_cruise s3 = enable_pedal_cruise s
     \<and> prev_tesla_pedal s3 = prev_tesla_pedal s \<and> pedal_steady s3 = pedal_steady s"
proof -
  let ?s1 = "pdl_prepare ext s CS sl act off"
  obtain s2 al jl where env: "pdl_envelope ext ?s1 CS radSt now = Inr (s2, al, jl)"
    using assms by (auto simp add: update_pdl_def Let_def pdl_prepare_keeps split: sum.splits)
  have enc: "pdl_encode (s2\<lparr>v_pid := pcm_speed\<rparr>) en CS (gas acts - brake acts) 12 (pedal_idx s)
      = Inr (s', out, e, i)"
    using assms env
    by (simp add: update_pdl_def Let_def pdl_prepare_keeps pdl_request_def op_request_def)
  show ?thesis
    using enc pdl_envelope_keeps [OF env] pdl_prepare_keeps [of ext s CS sl act off]
    by (intro exI [of _ "s2\<lparr>v_pid := pcm_speed\<rparr>"] exI [of _ "gas acts - brake acts"]) simp
qed

lemma update_pdl_emits_bounded:
  assumes "update_pdl ext s en CS frame acts pcm_speed pcm_override sl act off alca radSt mapd now
             = Inr (s', out, e, i)"
    and "pcc_available s" and "en"
  shows "prev_tesla_pedal s' = out \<and> 0 \<le> out \<and> out \<le> 100"
proof -
  obtain s3 gb where enc: "pdl_encode s3 en CS gb 12 (pedal_idx s) = Inr (s', out, e, i)"
    using update_pdl_gate [OF assms(1,2,3)] by blast
  obtain x where out: "out = (if enable_pedal_cruise s3 then
       clip (clip x (prev_tesla_pedal s3 - PEDAL_MAX_DOWN) (prev_tesla_pedal s3 + PEDAL_MAX_UP))
         0.0 MAX_PEDAL_VALUE else 0)"
    and p: "prev_tesla_pedal s' = out"
    using pdl_encode_out [OF enc] by blast
  have "0 \<le> out \<and> out \<le> 100" using out by (simp add: clip_def)
  with p show ?thesis by simp
qed

lemma update_pdl_slew_one:
  assumes "update_pdl ext s en CS frame acts pcm_speed pcm_override sl act off alca radSt mapd now
             = Inr (s', out, e, i)"
    and "pcc_available s" and "en"
    and "0 \<le> prev_tesla_pedal s" and "prev_tesla_pedal s \<le> 100"
  shows "enable_pedal_cruise s \<longrightarrow>
           out \<le> prev_tesla_pedal s + 5 / 2 \<and> prev_tesla_pedal s - 25 / 2 \<le> out"
    and "\<not> enable_pedal_cruise s \<longrightarrow> out = 0"
proof -
  obtain s3 gb where enc: "pdl_encode s3 en CS gb 12 (pedal_idx s) = Inr (s', out, e, i)"
    and k: "enable_pedal_cruise s3 = enable_pedal_cruise s"
      "prev_tesla_pedal s3 = prev_tesla_pedal s"
    using update_pdl_gate [OF assms(1,2,3)] by blast
  obtain x where out: "out = (if enable_pedal_cruise s then
       clip (clip x (prev_tesla_pedal s - PEDAL_MAX_DOWN) (prev_tesla_pedal s + PEDAL_MAX_UP))
         0.0 MAX_PEDAL_VALUE else 0)"
    using pdl_encode_out [OF enc] k by auto
  show "enable_pedal_cruise s \<longrightarrow>
           out \<le> prev_tesla_pedal s + 5 / 2 \<and> prev_tesla_pedal s - 25 / 2 \<le> out"
    using out slew_clip [OF assms(4,5)] by simp
  show "\<not> enable_pedal_cruise s \<longrightarrow> out = 0" using out by simp
qed

lemma cruising_cycle_1:
  "update_pdl example_ext cruising_PCC True example_CS 0 full_gas 20 False 0 False 0
       False None None 0 = Inr (cruising_PCC_1, 52.5, 1, 0)"
  by (simp add: pdl_eval)

lemma cruising_cycle_2:
  "update_pdl example_ext cruising_PCC_1 True example_CS 1 full_gas 20 False 0 False 0
       False None None 50 = Inr (cruising_PCC_2, 55, 1, 1)"
  by (simp add: pdl_eval)

lemma cruising_cycle_3:
  "update_pdl example_ext cruising_PCC_2 False example_CS 2 full_gas 20 False 0 False 0
       False None None 100 = Inr (cruising_PCC_2\<lparr>pedal_idx := 3\<rparr>, 0, 0, 2)"
  by (simp add: pdl_eval)

text \<open>
  C3, as the code has it. Take two cycles of \<open>update_pdl\<close> that both pass the gate
  (the pedal available and \<open>enabled\<close> set), the second starting from a state that
  holds the first one's \<open>prev_tesla_pedal\<close> (\<open>update_stat\<close> runs in between and
  leaves it alone). With the pedal cruise engaged in the second cycle, its pedal
  value is at most \<open>PEDAL_MAX_UP = 100 * 0.05 / 2 = 2.5\<close> above and at most
  \<open>PEDAL_MAX_DOWN = 100 * 0.05 / 0.4 = 12.5\<close> below the value the first cycle
  emitted. With the pedal cruise not engaged the second cycle emits 0, whatever the
  first emitted.
\<close>

theorem update_pdl_slew:
  assumes "update_pdl ext s0 en0 CS0 frame0 acts0 pcm_speed0 pcm_override0 sl0 act0 off0 alca0
             radSt0 mapd0 now0 = Inr (s1, out0, e0, i0)"
    and "pcc_available s0" and "en0"
    and "prev_tesla_pedal s1' = prev_tesla_pedal s1"
    and "update_pdl ext s1' en1 CS1 frame1 acts1 pcm_speed1 pcm_override1 sl1 act1 off1 alca1
             radSt1 mapd1 now1 = Inr (s2, out1, e1, i1)"
    and "pcc_available s1'" and "en1"
  shows "PEDAL_MAX_UP = 2.5 \<and> PEDAL_MAX_DOWN = 12.5
     \<and> (enable_pedal_cruise s1' \<longrightarrow>
          out1 - out0 \<le> PEDAL_MAX_UP \<and> out0 - out1 \<le> PEDAL_MAX_DOWN)
     \<and> (\<not> enable_pedal_cruise s1' \<longrightarrow> out1 = 0)"
proof -
  have a: "prev_tesla_pedal s1 = out0 \<and> 0 \<le> out0 \<and> out0 \<le> 100"
    using update_pdl_emits_bounded [OF assms(1,2,3)] .
  with assms(4) have b: "0 \<le> prev_tesla_pedal s1'" "prev_tesla_pedal s1' \<le> 100"
    and c: "prev_tesla_pedal s1' = out0" by simp_all
  show ?thesis
    using update_pdl_slew_one [OF assms(5,6,7) b] c by auto
qed

theorem update_pdl_slew_witness:
  "update_pdl example_ext cruising_PCC True example_CS 0 full_gas 20 False 0 False 0
       False None None 0 = Inr (cruising_PCC_1, 52.5, 1, 0)
   \<and> update_pdl example_ext cruising_PCC_1 True example_CS 1 full_gas 20 False 0 False 0
       False None None 50 = Inr (cruising_PCC_2, 55, 1, 1)
   \<and> (55 :: real) - 52.5 \<le> PEDAL_MAX_UP \<and> (52.5 :: real) - 55 \<le> PEDAL_MAX_DOWN"
proof -
  have a: "pcc_available cruising_PCC" "pcc_available cruising_PCC_1"
    "enable_pedal_cruise cruising_PCC_1"
    by (simp_all add: cruising_PCC_1_def cruising_PCC_def init_PCC_def)
  show ?thesis
    using update_pdl_slew [OF cruising_cycle_1 a(1) TrueI refl cruising_cycle_2 a(2) TrueI] a(3)
      cruising_cycle_1 cruising_cycle_2
    by simp
qed

text \<open>
  C3 as stated fails twice in one run of three cycles. Engaged, at full gas, the
  pedal value goes from 52.5 to 55: a rise of 2.5, more than 1.25. In the next
  cycle \<open>enabled\<close> is off and the value goes from 55 to 0: a fall of 55, more than
  12.5.
\<close>

theorem update_pdl_slew_counterexample:
  "update_pdl example_ext cruising_PCC True example_CS 0 full_gas 20 False 0 False 0
       False None None 0 = Inr (cruising_PCC_1, 52.5, 1, 0)
   \<and> update_pdl example_ext cruising_PCC_1 True example_CS 1 full_gas 20 False 0 False 0
       False None None 50 = Inr (cruising_PCC_2, 55, 1, 1)
   \<and> update_pdl example_ext cruising_PCC_2 False example_CS 2 full_gas 20 False 0 False 0
       False None None 100 = Inr (cruising_PCC_2\<lparr>pedal_idx := 3\<rparr>, 0, 0, 2)
   \<and> (55 :: real) - 52.5 > 1.25 \<and> (55 :: real) - 0 > 12.5"
  using cruising_cycle_1 cruising_cycle_2 cruising_cycle_3 by simp

text \<open>
  C8 fails on the code. \<open>pedal_hysteresis\<close> sets the steady value to 0 when it is
  called with \<open>enabled\<close> off, but \<open>update_pdl\<close> returns before the call whenever
  the pedal is unavailable or \<open>enabled\<close> is off: such a cycle emits 0 and leaves
  \<open>pedal_steady\<close> as it was.
\<close>

theorem update_pdl_gated_keeps_pedal_steady:
  assumes "\<not> pcc_available s \<or> \<not> enabled"
  shows "\<exists>s'. update_pdl ext s enabled CS frame acts pcm_speed pcm_override sl act off alca
                 radSt mapd now = Inr (s', 0, 0, pedal_idx s)
              \<and> pedal_steady s' = pedal_steady s"
  using assms by (auto simp add: update_pdl_def Let_def pdl_prepare_keeps)

text \<open>
  The disengaged controller, whose steady value is 99, in a cycle with \<open>enabled\<close>
  off: the steady value is 99 after the cycle, not 0.
\<close>

theorem update_pdl_gated_keeps_pedal_steady_witness:
  "update_pdl example_ext disengaged_PCC False example_CS 2 full_gas 20 False 0 False 0
       False None None 100 = Inr (disengaged_PCC\<lparr>pedal_idx := 3\<rparr>, 0, 0, 2)
   \<and> pedal_steady (disengaged_PCC\<lparr>pedal_idx := 3\<rparr>) = 99"
  using update_pdl_gated_keeps_pedal_steady [of disengaged_PCC False example_ext example_CS 2
      full_gas 20 False 0 False 0 False None None 100]
  by (simp add: pdl_eval)

text \<open>
  C9. The choice \<open>pdl_request\<close> always takes the branch of the planner's request:
  the request is \<open>gas - brake\<close>, the brake multiplier 12, and \<open>v_pid\<close> the
  commanded speed. So \<open>update_pdl\<close> is the controller with the follow branch
  removed, for every state and input, whatever mode the user interface selects.
\<close>

theorem update_pdl_follow_branch_dead:
  "pdl_request ext s enabled CS frame acts pcm_speed alca_enabled mapd accel_limits jerk_limits
     = Inr (s\<lparr>v_pid := pcm_speed\<rparr>, enabled, gas acts - brake acts, 12)
   \<and> update_pdl ext s enabled CS frame acts pcm_speed pcm_override sl act off alca_enabled
       radSt mapd now
     = update_pdl_op_only ext s enabled CS frame acts pcm_speed pcm_override sl act off
         alca_enabled radSt mapd now"
  by (simp add: update_pdl_def update_pdl_op_only_def pdl_request_def op_request_def Let_def
      split: sum.splits)

text \<open>With the follow mode selected in the user interface, the cycle is the same.\<close>

theorem update_pdl_follow_branch_dead_witness:
  "is_selected FollowMode follow_CS
   \<and> update_pdl example_ext cruising_PCC True follow_CS 0 full_gas 20 False 0 False 0
       False None None 0 = Inr (cruising_PCC_1, 52.5, 1, 0)
   \<and> update_pdl_op_only example_ext cruising_PCC True follow_CS 0 full_gas 20 False 0 False 0
       False None None 0 = Inr (cruising_PCC_1, 52.5, 1, 0)"
proof -
  have a: "is_selected FollowMode follow_CS"
    by (simp add: is_selected_def from_buttons_def from_label_def label_def follow_CS_def
        example_CS_def)
  have b: "update_pdl_op_only example_ext cruising_PCC True follow_CS 0 full_gas 20 False 0
       False 0 False None None 0 = Inr (cruising_PCC_1, 52.5, 1, 0)"
    by (simp add: pdl_eval)
  show ?thesis
    using update_pdl_follow_branch_dead [of example_ext cruising_PCC True follow_CS 0 full_gas
        20 False None "(0, 0)" "(0, 0)" False 0 False 0 None 0] a b
    by simp
qed

end
